theory Spec2Isabelle
  imports Complex_Main "HOL-Library.AList"
begin

section \<open>Data model of convert_tide_data.py\<close>

text \<open>
  Every datetime of the program has zero seconds and microseconds: the loader builds it
  from a date, an hour and a minute, and the generator only replaces the time of day by
  a whole hour and adds whole hours. A datetime is therefore modelled as the number of
  minutes since 00:00 of proleptic Gregorian ordinal day 0, an \<open>int\<close>. The key
  \<open>strftime("%Y-%m-%d")\<close> of a tick is modelled by its ordinal day and the key
  \<open>strftime("%H:00")\<close> by its hour 0..23. Date strings with four-digit years are
  ordered as their days are, so sorting the keys is sorting the ordinals; years below
  1000, which \<open>strftime\<close> may print without padding, and the upper end of Python's
  calendar (adding an hour to 23:00 of 9999-12-31 raises OverflowError) are not
  modelled. Heights are Python floats, modelled as reals.
\<close>

datatype error = IndexError | KeyError | ZeroDivisionError | ValueError | NonFiniteHeight

record extremum =
  time :: int
  height :: real

text \<open>
  One element of the output list: the dict \<open>{"Date": d, "HH:00": level, ...}\<close>, with the
  hour entries in insertion order.
\<close>

record daily =
  Date :: int
  hours :: "(nat \<times> real) list"

type_synonym daily_data = "(int \<times> daily) list"

definition day_start :: "int \<Rightarrow> int" where
  "day_start t = (t div 1440) * 1440"

definition date_of :: "int \<Rightarrow> int" where
  "date_of t = t div 1440"

definition hour_of :: "int \<Rightarrow> nat" where
  "hour_of t = nat ((t mod 1440) div 60)"

text \<open>\<open>timedelta.total_seconds()\<close> of a difference of two datetimes, as a float.\<close>

definition total_seconds :: "int \<Rightarrow> real" where
  "total_seconds d = real_of_int (60 * d)"

section \<open>Extrema loader\<close>

text \<open>
  A row is the dict that \<open>csv.DictReader\<close> yields: column name to field text, as an
  association list (a field that the reader leaves as \<open>None\<close>, in a row shorter than
  the header, is not modelled). Strings are lists of characters with code points below
  256. \<open>row.get(key, '')\<close> is \<open>row_get\<close>.

  The loader calls four functions of the Python library, modelled here on such strings:
  \<open>str.strip\<close> (\<open>py_strip\<close>), \<open>int\<close> (\<open>py_int\<close>), \<open>float\<close> (\<open>py_float\<close>) and
  \<open>datetime.strptime(_, '%Y-%m-%d')\<close> (\<open>strptime_ymd\<close>). \<open>None\<close> and \<open>Rejected\<close>
  stand for the ValueError the library raises.

  \<open>int\<close> and \<open>float\<close> accept surrounding white space (a smaller set than \<open>strip\<close>
  removes), a sign, and single underscores between digits; the interpreter's limit on
  the number of digits is not modelled. \<open>float\<close> also accepts a fraction, an exponent
  and the words inf, infinity and nan. The latter give values that no real number
  models: \<open>py_float\<close> reports them as \<open>NonFinite\<close> and the loader model stops there
  with \<open>NonFiniteHeight\<close>, where Python goes on.

  \<open>strptime\<close> matches four digits, a month 1..12 and a day 1..31 (each with an optional
  leading zero; the day also with a leading space) separated by hyphens, tries the
  alternatives in the order of its regular expression, rejects unconverted trailing text
  and then checks the calendar; its result is modelled by the proleptic Gregorian ordinal
  of the date (\<open>date.toordinal\<close>).
\<close>

type_synonym row = "(string \<times> string) list"

definition row_get :: "row \<Rightarrow> string \<Rightarrow> string" where
  "row_get r k = (case map_of r k of None \<Rightarrow> [] | Some v \<Rightarrow> v)"

definition is_space :: "char \<Rightarrow> bool" where
  "is_space c \<longleftrightarrow> c \<in> set [CHR 0x09, CHR 0x0A, CHR 0x0B, CHR 0x0C, CHR 0x0D, CHR 0x1C,
                          CHR 0x1D, CHR 0x1E, CHR 0x1F, CHR '' '', CHR 0x85, CHR 0xA0]"

definition py_strip :: "string \<Rightarrow> string" where
  "py_strip s = rev (dropWhile is_space (rev (dropWhile is_space s)))"

text \<open>The white space that \<open>int\<close> and \<open>float\<close> skip at both ends of their argument.\<close>

definition is_num_space :: "char \<Rightarrow> bool" where
  "is_num_space c \<longleftrightarrow> c \<in> set [CHR 0x09, CHR 0x0A, CHR 0x0B, CHR 0x0C, CHR 0x0D, CHR '' '',
                              CHR 0x85, CHR 0xA0]"

definition num_strip :: "string \<Rightarrow> string" where
  "num_strip s = rev (dropWhile is_num_space (rev (dropWhile is_num_space s)))"

definition digit_of :: "char \<Rightarrow> nat option" where
  "digit_of c = map_of [(CHR ''0'', 0), (CHR ''1'', 1), (CHR ''2'', 2), (CHR ''3'', 3),
      (CHR ''4'', 4), (CHR ''5'', 5), (CHR ''6'', 6), (CHR ''7'', 7), (CHR ''8'', 8),
      (CHR ''9'', 9)] c"

fun scan_digits :: "string \<Rightarrow> nat list \<times> string" where
  "scan_digits [] = ([], [])"
| "scan_digits [c] = (case digit_of c of Some v \<Rightarrow> ([v], []) | None \<Rightarrow> ([], [c]))"
| "scan_digits (c # d # cs) =
     (case digit_of c of
        Some v \<Rightarrow> apfst ((#) v) (scan_digits (d # cs))
      | None \<Rightarrow>
          (case (c = CHR ''_'', digit_of d) of
             (True, Some w) \<Rightarrow> apfst ((#) w) (scan_digits cs)
           | _ \<Rightarrow> ([], c # d # cs)))"

definition digitpart :: "string \<Rightarrow> (nat list \<times> string) option" where
  "digitpart s =
     (case s of
        [] \<Rightarrow> None
      | c # cs \<Rightarrow> (case digit_of c of
                     None \<Rightarrow> None
                   | Some v \<Rightarrow> Some (apfst ((#) v) (scan_digits cs))))"

definition digits_value :: "nat list \<Rightarrow> nat" where
  "digits_value ds = foldl (\<lambda>a d. a * 10 + d) 0 ds"

definition split_sign :: "string \<Rightarrow> int \<times> string" where
  "split_sign s =
     (case s of
        [] \<Rightarrow> (1, [])
      | c # cs \<Rightarrow> if c = CHR ''-'' then (- 1, cs) else if c = CHR ''+'' then (1, cs) else (1, s))"

definition py_int :: "string \<Rightarrow> int option" where
  "py_int s =
     (let (sg, body) = split_sign (num_strip s)
      in (case digitpart body of
            Some (ds, []) \<Rightarrow> Some (sg * int (digits_value ds))
          | _ \<Rightarrow> None))"

datatype float_parse = Parsed real | NonFinite | Rejected

definition lower_ascii :: "char \<Rightarrow> char" where
  "lower_ascii c =
     (case map_of [(CHR ''I'', CHR ''i''), (CHR ''N'', CHR ''n''), (CHR ''F'', CHR ''f''),
                   (CHR ''T'', CHR ''t''), (CHR ''Y'', CHR ''y''), (CHR ''A'', CHR ''a'')] c of
        None \<Rightarrow> c | Some l \<Rightarrow> l)"

definition scale10 :: "real \<Rightarrow> int \<Rightarrow> real" where
  "scale10 x e = (if 0 \<le> e then x * 10 ^ nat e else x / 10 ^ nat (- e))"

definition decimal_value :: "nat list \<Rightarrow> nat list \<Rightarrow> int \<Rightarrow> real" where
  "decimal_value ip fp e =
     scale10 (real (digits_value ip) + real (digits_value fp) / 10 ^ length fp) e"

definition float_exponent :: "nat list \<Rightarrow> nat list \<Rightarrow> string \<Rightarrow> real option" where
  "float_exponent ip fp s =
     (case s of
        [] \<Rightarrow> Some (decimal_value ip fp 0)
      | c # cs \<Rightarrow>
          if c = CHR ''e'' \<or> c = CHR ''E'' then
            (let (sg, body) = split_sign cs
             in (case digitpart body of
                   Some (ds, []) \<Rightarrow> Some (decimal_value ip fp (sg * int (digits_value ds)))
                 | _ \<Rightarrow> None))
          else None)"

definition float_number :: "string \<Rightarrow> real option" where
  "float_number s =
     (case digitpart s of
        Some (ip, r1) \<Rightarrow>
          (case r1 of
             [] \<Rightarrow> float_exponent ip [] r1
           | c # r2 \<Rightarrow>
               if c = CHR ''.'' then
                 (case digitpart r2 of
                    Some (fp, r3) \<Rightarrow> float_exponent ip fp r3
                  | None \<Rightarrow> float_exponent ip [] r2)
               else float_exponent ip [] r1)
      | None \<Rightarrow>
          (case s of
             [] \<Rightarrow> None
           | c # r2 \<Rightarrow>
               if c = CHR ''.'' then
                 (case digitpart r2 of
                    Some (fp, r3) \<Rightarrow> float_exponent [] fp r3
                  | None \<Rightarrow> None)
               else None))"

definition py_float :: "string \<Rightarrow> float_parse" where
  "py_float s =
     (let (sg, body) = split_sign (num_strip s)
      in if map lower_ascii body \<in> set [''inf'', ''infinity'', ''nan''] then NonFinite
         else (case float_number body of
                 None \<Rightarrow> Rejected
               | Some v \<Rightarrow> Parsed (real_of_int sg * v)))"

definition is_leap :: "nat \<Rightarrow> bool" where
  "is_leap y \<longleftrightarrow> y mod 4 = 0 \<and> (y mod 100 \<noteq> 0 \<or> y mod 400 = 0)"

definition days_in_month :: "nat \<Rightarrow> nat \<Rightarrow> nat" where
  "days_in_month y m =
     (if m = 2 then (if is_leap y then 29 else 28)
      else if m \<in> set [4, 6, 9, 11] then 30 else 31)"

definition days_before_month :: "nat \<Rightarrow> nat \<Rightarrow> nat" where
  "days_before_month y m = sum_list (map (days_in_month y) [1..<m])"

definition days_before_year :: "nat \<Rightarrow> nat" where
  "days_before_year y = (y - 1) * 365 + (y - 1) div 4 - (y - 1) div 100 + (y - 1) div 400"

definition ymd_to_ordinal :: "nat \<Rightarrow> nat \<Rightarrow> nat \<Rightarrow> int option" where
  "ymd_to_ordinal y m d =
     (if 1 \<le> y \<and> 1 \<le> m \<and> m \<le> 12 \<and> 1 \<le> d \<and> d \<le> days_in_month y m
      then Some (int (days_before_year y + days_before_month y m + d)) else None)"

definition month_alts :: "string \<Rightarrow> (nat \<times> string) list" where
  "month_alts s =
     (case s of
        a # b # r \<Rightarrow>
          (case (a = CHR ''1'', digit_of b) of
             (True, Some v) \<Rightarrow> if v \<le> 2 then [(10 + v, r)] else []
           | _ \<Rightarrow> [])
          @ (case (a = CHR ''0'', digit_of b) of
               (True, Some v) \<Rightarrow> if 1 \<le> v then [(v, r)] else []
             | _ \<Rightarrow> [])
      | _ \<Rightarrow> [])
     @ (case s of
          a # r \<Rightarrow> (case digit_of a of Some v \<Rightarrow> if 1 \<le> v then [(v, r)] else [] | None \<Rightarrow> [])
        | [] \<Rightarrow> [])"

definition day_alts :: "string \<Rightarrow> (nat \<times> string) list" where
  "day_alts s =
     (case s of
        a # b # r \<Rightarrow>
          (case (a = CHR ''3'', digit_of b) of
             (True, Some v) \<Rightarrow> if v \<le> 1 then [(30 + v, r)] else []
           | _ \<Rightarrow> [])
          @ (case (digit_of a, digit_of b) of
               (Some u, Some v) \<Rightarrow> if 1 \<le> u \<and> u \<le> 2 then [(10 * u + v, r)] else []
             | _ \<Rightarrow> [])
          @ (case (a = CHR ''0'', digit_of b) of
               (True, Some v) \<Rightarrow> if 1 \<le> v then [(v, r)] else []
             | _ \<Rightarrow> [])
      | _ \<Rightarrow> [])
     @ (case s of
          a # r \<Rightarrow> (case digit_of a of Some v \<Rightarrow> if 1 \<le> v then [(v, r)] else [] | None \<Rightarrow> [])
        | [] \<Rightarrow> [])
     @ (case s of
          a # b # r \<Rightarrow>
            (case (a = CHR '' '', digit_of b) of
               (True, Some v) \<Rightarrow> if 1 \<le> v then [(v, r)] else []
             | _ \<Rightarrow> [])
        | _ \<Rightarrow> [])"

definition strptime_ymd :: "string \<Rightarrow> int option" where
  "strptime_ymd s =
     (case s of
        y1 # y2 # y3 # y4 # dash # rest \<Rightarrow>
          (case (digit_of y1, digit_of y2, digit_of y3, digit_of y4, dash = CHR ''-'') of
             (Some a, Some b, Some c, Some d, True) \<Rightarrow>
               (case concat (map (\<lambda>(m, r). case r of
                                    [] \<Rightarrow> []
                                  | x # r' \<Rightarrow> if x = CHR ''-''
                                      then map (\<lambda>(dy, r''). (m, dy, r'')) (day_alts r') else [])
                                 (month_alts rest)) of
                  [] \<Rightarrow> None
                | (m, dy, left) # others \<Rightarrow>
                    if left = [] then ymd_to_ordinal (digits_value [a, b, c, d]) m dy else None)
           | _ \<Rightarrow> None)
      | _ \<Rightarrow> None)"

text \<open>
  Lines 63-78, one slot whose time and height are both present: the hour and the minute
  are read from the first two characters of the time and from the rest, the date is
  parsed, \<open>replace(hour=, minute=)\<close> checks the ranges, and the height is parsed last.
\<close>

definition parse_slot :: "string \<Rightarrow> string \<Rightarrow> string \<Rightarrow> error + extremum" where
  "parse_slot date_str time_val height_val =
     (case py_int (take 2 time_val) of
        None \<Rightarrow> Inl ValueError
      | Some hour \<Rightarrow>
     (case py_int (drop 2 time_val) of
        None \<Rightarrow> Inl ValueError
      | Some minute \<Rightarrow>
     (case strptime_ymd date_str of
        None \<Rightarrow> Inl ValueError
      | Some day \<Rightarrow>
          if \<not> (0 \<le> hour \<and> hour \<le> 23 \<and> 0 \<le> minute \<and> minute \<le> 59) then Inl ValueError
          else (case py_float height_val of
                  Rejected \<Rightarrow> Inl ValueError
                | NonFinite \<Rightarrow> Inl NonFiniteHeight
                | Parsed h \<Rightarrow> Inr \<lparr>time = day * 1440 + hour * 60 + minute, height = h\<rparr>))))"

text \<open>Lines 56-78: the loop over the four slots of one row.\<close>

definition slot_keys :: "(string \<times> string) list" where
  "slot_keys = [(''Time1'', ''Height1''), (''Time2'', ''Height2''),
                (''Time3'', ''Height3''), (''Time4'', ''Height4'')]"

fun parse_slots :: "row \<Rightarrow> string \<Rightarrow> (string \<times> string) list \<Rightarrow> extremum list \<Rightarrow> error + extremum list" where
  "parse_slots r date_str [] extrema = Inr extrema"
| "parse_slots r date_str ((time_key, height_key) # ks) extrema =
     (let time_val = py_strip (row_get r time_key);
          height_val = py_strip (row_get r height_key)
      in if time_val \<noteq> [] \<and> height_val \<noteq> [] then
           (case parse_slot date_str time_val height_val of
              Inl err \<Rightarrow> Inl err
            | Inr e \<Rightarrow> parse_slots r date_str ks (extrema @ [e]))
         else parse_slots r date_str ks extrema)"

text \<open>
  Lines 48-78: the loop over the rows. \<open>row['Date']\<close> raises KeyError when the column
  is missing; rows whose date starts with EXAMPLE are skipped.
\<close>

fun parse_rows :: "row list \<Rightarrow> extremum list \<Rightarrow> error + extremum list" where
  "parse_rows [] extrema = Inr extrema"
| "parse_rows (r # rs) extrema =
     (case map_of r ''Date'' of
        None \<Rightarrow> Inl KeyError
      | Some date_str \<Rightarrow>
          if take 7 date_str = ''EXAMPLE'' then parse_rows rs extrema
          else (case parse_slots r date_str slot_keys extrema of
                  Inl err \<Rightarrow> Inl err
                | Inr extrema' \<Rightarrow> parse_rows rs extrema'))"

text \<open>\<open>parse_csv_to_extrema\<close>, lines 36-83: the rows are parsed, then sorted by time (stably).\<close>

definition parse_csv_to_extrema :: "row list \<Rightarrow> error + extremum list" where
  "parse_csv_to_extrema rows =
     (case parse_rows rows [] of
        Inl err \<Rightarrow> Inl err
      | Inr extrema \<Rightarrow> Inr (sort_key time extrema))"

section \<open>Half-sine interpolation\<close>

text \<open>
  \<open>tide_height_between\<close>, lines 85-110. Python's float division raises
  ZeroDivisionError on a zero divisor, which is a branch of the model.
\<close>

definition tide_height_between :: "int \<Rightarrow> int \<Rightarrow> real \<Rightarrow> int \<Rightarrow> real \<Rightarrow> error + real" where
  "tide_height_between t t0 h0 t1 h1 =
     (if t \<le> t0 then Inr h0
      else if t \<ge> t1 then Inr h1
      else if total_seconds (t1 - t0) = 0 then Inl ZeroDivisionError
      else (let x = total_seconds (t - t0) / total_seconds (t1 - t0);
                s = 0.5 * (1 + sin (pi * x - pi / 2))
            in Inr (h0 + (h1 - h0) * s)))"

text \<open>
  \<open>round(ht, 1)\<close> on the real number: the nearest multiple of one tenth, a tie going
  to the even multiple.
\<close>

definition py_round1 :: "real \<Rightarrow> real" where
  "py_round1 x =
     (let y = x * 10; f = \<lfloor>y\<rfloor>
      in (if y - of_int f < 1 / 2 then of_int f
          else if y - of_int f > 1 / 2 then of_int f + 1
          else if even f then of_int f else of_int f + 1) / 10)"

section \<open>Hourly generation\<close>

text \<open>
  Lines 144-148: create the day's dict when the date is new, then store the rounded
  height under the hour key.
\<close>

definition record_sample :: "int \<Rightarrow> real \<Rightarrow> daily_data \<Rightarrow> daily_data" where
  "record_sample t ht dd =
     (let d = date_of t;
          dd1 = (if map_of dd d = None then AList.update d \<lparr>Date = d, hours = []\<rparr> dd else dd)
      in AList.map_entry d (\<lambda>r. r\<lparr>hours := AList.update (hour_of t) (py_round1 ht) (hours r)\<rparr>) dd1)"

text \<open>
  Lines 136-149: the scan over consecutive pairs, which stops at the first pair that
  brackets the tick; a tick that no pair brackets leaves the data unchanged.
\<close>

fun sample_tick :: "extremum list \<Rightarrow> int \<Rightarrow> daily_data \<Rightarrow> error + daily_data" where
  "sample_tick (e0 # e1 # es) t dd =
     (if time e0 \<le> t \<and> t \<le> time e1 then
        (case tide_height_between t (time e0) (height e0) (time e1) (height e1) of
           Inl err \<Rightarrow> Inl err
         | Inr ht \<Rightarrow> Inr (record_sample t ht dd))
      else sample_tick (e1 # es) t dd)"
| "sample_tick es t dd = Inr dd"

text \<open>Lines 130-151: the while loop over the hour ticks.\<close>

function hourly_loop :: "extremum list \<Rightarrow> int \<Rightarrow> int \<Rightarrow> daily_data \<Rightarrow> error + daily_data" where
  "hourly_loop ex t end_t dd =
     (if t \<le> end_t then
        (case sample_tick ex t dd of
           Inl err \<Rightarrow> Inl err
         | Inr dd' \<Rightarrow> hourly_loop ex (t + 60) end_t dd')
      else Inr dd)"
  by pat_completeness auto
termination
  by (relation "measure (\<lambda>(ex, t, end_t, dd). nat (end_t - t + 1))") auto

text \<open>Line 154: \<open>[daily_data[date] for date in sorted(daily_data.keys())]\<close>.\<close>

fun lookup_all :: "daily_data \<Rightarrow> int list \<Rightarrow> error + daily list" where
  "lookup_all dd [] = Inr []"
| "lookup_all dd (d # ds) =
     (case map_of dd d of
        None \<Rightarrow> Inl KeyError
      | Some r \<Rightarrow> (case lookup_all dd ds of Inl err \<Rightarrow> Inl err | Inr rs \<Rightarrow> Inr (r # rs)))"

text \<open>
  \<open>generate_hourly_tides\<close>, lines 112-154. \<open>extrema[0]\<close> raises IndexError on the empty
  list.
\<close>

definition generate_hourly_tides :: "extremum list \<Rightarrow> error + daily list" where
  "generate_hourly_tides extrema =
     (case extrema of
        [] \<Rightarrow> Inl IndexError
      | e # es \<Rightarrow>
          (let start = day_start (time e);
               end_t = day_start (time (last extrema)) + 23 * 60
           in (case hourly_loop extrema start end_t [] of
                 Inl err \<Rightarrow> Inl err
               | Inr dd \<Rightarrow> lookup_all dd (sort (map fst dd)))))"

section \<open>Validation\<close>




section \<open>The pipeline\<close>


section \<open>Abstractions used in the proofs\<close>

text \<open>The S-curve of the interpolation, as a function of the elapsed fraction.\<close>

definition half_sine :: "real \<Rightarrow> real" where
  "half_sine x = 0.5 * (1 + sin (pi * x - pi / 2))"







section \<open>Properties of the interpolation\<close>


lemma total_seconds_ratio:
  "total_seconds a / total_seconds b = real_of_int a / real_of_int b"
proof -
  have "total_seconds a = 60 * real_of_int a" "total_seconds b = 60 * real_of_int b"
    by (simp_all add: total_seconds_def)
  then show ?thesis by simp
qed

lemma total_seconds_eq_0: "total_seconds d = 0 \<longleftrightarrow> d = 0"
  by (simp add: total_seconds_def)

lemma half_sine_mono:
  assumes "0 \<le> x" "x \<le> y" "y \<le> 1"
  shows "half_sine x \<le> half_sine y"
proof -
  have a: "- (pi / 2) \<le> pi * x - pi / 2"
    using assms(1) by simp
  have b: "pi * x - pi / 2 \<le> pi * y - pi / 2"
    using assms(2) by simp
  have c: "pi * y - pi / 2 \<le> pi / 2"
  proof -
    have "pi * y \<le> pi * 1" using assms(3) by (intro mult_left_mono) simp_all
    then show ?thesis by simp
  qed
  have "sin (pi * x - pi / 2) \<le> sin (pi * y - pi / 2)"
    using a b c by (rule sin_monotone_2pi_le)
  then show ?thesis by (simp add: half_sine_def)
qed

lemma half_sine_0: "half_sine 0 = 0"
  by (simp add: half_sine_def)

lemma half_sine_1: "half_sine 1 = 1"
  by (simp add: half_sine_def)

lemma thb_interior:
  "t0 < t \<Longrightarrow> t < t1 \<Longrightarrow>
   tide_height_between t t0 h0 t1 h1 =
     Inr (h0 + (h1 - h0) * half_sine (real_of_int (t - t0) / real_of_int (t1 - t0)))"
  by (simp add: tide_height_between_def total_seconds_ratio total_seconds_eq_0 Let_def half_sine_def)

lemma thb_closed_form:
  "t0 < t1 \<Longrightarrow> t0 \<le> t \<Longrightarrow> t \<le> t1 \<Longrightarrow>
   tide_height_between t t0 h0 t1 h1 =
     Inr (h0 + (h1 - h0) * half_sine (real_of_int (t - t0) / real_of_int (t1 - t0)))"
proof -
  assume a: "t0 < t1" "t0 \<le> t" "t \<le> t1"
  consider "t = t0" | "t = t1" | "t0 < t" "t < t1" using a by linarith
  then show ?thesis
  proof cases
    case 1
    then show ?thesis using a by (simp add: tide_height_between_def half_sine_0)
  next
    case 2
    then show ?thesis using a by (simp add: tide_height_between_def half_sine_1)
  next
    case 3
    then show ?thesis by (rule thb_interior)
  qed
qed

text \<open>
  C6: strictly between the two extrema the result is \<open>h0 + (h1 - h0) * s\<close>, where
  \<open>x = (t - t0) / (t1 - t0)\<close> is the elapsed fraction of the interval and
  \<open>s = 0.5 * (1 + sin (pi * x - pi / 2))\<close>; the function returns a value there, it
  does not raise.
\<close>

theorem tide_height_between_half_sine:
  "t0 < t \<Longrightarrow> t < t1 \<Longrightarrow>
   tide_height_between t t0 h0 t1 h1 =
     Inr (h0 + (h1 - h0) *
            (0.5 * (1 + sin (pi * (real_of_int (t - t0) / real_of_int (t1 - t0)) - pi / 2))))"
  using thb_interior [of t0 t t1 h0 h1] by (simp add: half_sine_def)

theorem tide_height_between_half_sine_witness:
  "(0::int) < 30 \<and> (30::int) < 60 \<and> tide_height_between 30 0 1 60 2 = Inr (3 / 2)"
  using tide_height_between_half_sine [of 0 30 60 1 2] by simp

text \<open>
  C7: on a rising interval (\<open>t0 < t1\<close>, \<open>h0 < h1\<close>) the interpolated height never
  decreases as the query time moves from \<open>t0\<close> to \<open>t1\<close>.
\<close>

theorem tide_height_between_rising_mono:
  assumes "t0 < t1" "h0 < h1" "t0 \<le> a" "a \<le> b" "b \<le> t1"
  shows "\<exists>va vb. tide_height_between a t0 h0 t1 h1 = Inr va \<and>
                 tide_height_between b t0 h0 t1 h1 = Inr vb \<and> va \<le> vb"
proof -
  let ?x = "\<lambda>t. real_of_int (t - t0) / real_of_int (t1 - t0)"
  have pos: "0 < real_of_int (t1 - t0)" using assms(1) by simp
  have x0: "0 \<le> ?x a" using assms pos by (intro divide_nonneg_pos) simp_all
  have xy: "?x a \<le> ?x b" using assms pos by (intro divide_right_mono) simp_all
  have y1: "?x b \<le> 1" using assms pos by simp
  have m: "half_sine (?x a) \<le> half_sine (?x b)" by (rule half_sine_mono[OF x0 xy y1])
  have "(h1 - h0) * half_sine (?x a) \<le> (h1 - h0) * half_sine (?x b)"
    using m assms(2) by (intro mult_left_mono) simp_all
  moreover have "tide_height_between a t0 h0 t1 h1 = Inr (h0 + (h1 - h0) * half_sine (?x a))"
    using assms by (intro thb_closed_form) simp_all
  moreover have "tide_height_between b t0 h0 t1 h1 = Inr (h0 + (h1 - h0) * half_sine (?x b))"
    using assms by (intro thb_closed_form) simp_all
  ultimately show ?thesis by simp
qed

theorem tide_height_between_rising_mono_witness:
  "(0::int) < 60 \<and> (1::real) < 2 \<and>
   (\<exists>va vb. tide_height_between 0 0 1 60 2 = Inr va \<and>
            tide_height_between 60 0 1 60 2 = Inr vb \<and> va \<le> vb)"
  using tide_height_between_rising_mono [of 0 60 1 2 0 60] by simp

text \<open>
  C10: the function returns a value on every input. The division is reached only with
  \<open>t0 < t < t1\<close>, where the divisor is positive, and for \<open>t0 = t1\<close> the result is
  \<open>h0\<close> or \<open>h1\<close>, from one of the two clamp branches.
\<close>

theorem tide_height_between_no_zero_division:
  "(\<exists>v. tide_height_between t t0 h0 t1 h1 = Inr v) \<and>
   (t \<le> t0 \<or> t1 \<le> t \<or> 0 < total_seconds (t1 - t0)) \<and>
   tide_height_between t t0 h0 t0 h1 = Inr (if t \<le> t0 then h0 else h1)"
  by (auto simp: tide_height_between_def total_seconds_def Let_def)

section \<open>Properties of the generation\<close>








































text \<open>
  C1: on the empty extrema list the generator does not return an empty result: reading
  \<open>extrema[0]\<close> raises IndexError.
\<close>

theorem generate_hourly_tides_empty:
  "generate_hourly_tides [] = Inl IndexError"
  by (simp add: generate_hourly_tides_def)














section \<open>Properties of the loader\<close>

lemmas loader_eval = py_int_def py_strip_def is_space_def num_strip_def is_num_space_def split_sign_def digitpart_def digit_of_def
  digits_value_def py_float_def float_number_def float_exponent_def decimal_value_def scale10_def
  lower_ascii_def strptime_ymd_def month_alts_def day_alts_def ymd_to_ordinal_def
  days_before_year_def days_before_month_def days_in_month_def is_leap_def
  parse_slot_def slot_keys_def row_get_def parse_csv_to_extrema_def

text \<open>The library models on some inputs.\<close>

lemma py_int_examples:
  "py_int ''10'' = Some 10" "py_int ''7'' = Some 7" "py_int ''AB'' = None"
  "py_int '' -1_0 '' = Some (- 10)" "py_int ''1__0'' = None" "py_int [] = None"
  "py_int [CHR ''1'', CHR 0x1C] = None" "py_int ''1 '' = Some 1"
  by (simp_all add: loader_eval)

lemma py_float_examples:
  "py_float ''1.1'' = Parsed (11 / 10)" "py_float ''-1e2'' = Parsed (- 100)"
  "py_float ''.5'' = Parsed (1 / 2)" "py_float ''1.'' = Parsed 1"
  "py_float ''NaN'' = NonFinite" "py_float ''abc'' = Rejected" "py_float ''.'' = Rejected"
  by (simp_all add: loader_eval)

lemma strptime_ymd_examples:
  "strptime_ymd ''2025-12-01'' = Some 739586" "strptime_ymd ''2025-1-5'' = Some 739256"
  "strptime_ymd ''0001-01-01'' = Some 1" "strptime_ymd ''2025-02-30'' = None"
  "strptime_ymd ''2025-12-011'' = None" "strptime_ymd ''garbage'' = None"
  by (simp_all add: loader_eval upt_rec)







section \<open>Properties of the validation\<close>




end
